theory Spec2Isabelle
  imports Main
begin

section \<open>JavaScript values and objects\<close>

text \<open>
  The two components pass plain JavaScript values around: review objects, state
  objects, request parameters. A value is one of the primitives or an opaque object
  reference (\<open>apiState\<close>, \<open>errorHandler\<close>); numbers are the integers the review ids
  and ratings are. An object is a finite map from property names to values: reading a
  property that is absent gives \<open>undefined\<close>, and a spread \<open>{...a, ...b}\<close> is \<open>a ++ b\<close>.
\<close>

datatype jsval = JUndefined | JNull | JBool bool | JNum int | JStr string | JRef string

type_synonym jsobj = "string \<rightharpoonup> jsval"

fun truthy :: "jsval \<Rightarrow> bool" where
  "truthy JUndefined = False"
| "truthy JNull = False"
| "truthy (JBool b) = b"
| "truthy (JNum n) = (n \<noteq> 0)"
| "truthy (JStr s) = (s \<noteq> [])"
| "truthy (JRef r) = True"

definition js_or :: "jsval \<Rightarrow> jsval \<Rightarrow> jsval" where
  \<comment> \<open>\<open>a || b\<close>\<close>
  "js_or a b = (if truthy a then a else b)"

definition field :: "jsobj \<Rightarrow> string \<Rightarrow> jsval" where
  \<comment> \<open>\<open>obj.k\<close> on an object\<close>
  "field obj k = (case obj k of None \<Rightarrow> JUndefined | Some v \<Rightarrow> v)"

definition spread :: "jsobj option \<Rightarrow> jsobj" where
  \<comment> \<open>\<open>{...x}\<close>: spreading \<open>undefined\<close> or \<open>null\<close> contributes no property\<close>
  "spread x = (case x of None \<Rightarrow> Map.empty | Some obj \<Rightarrow> obj)"

fun digits :: "nat \<Rightarrow> string" where
  "digits n =
     (if n < 10 then [''0123456789'' ! n]
      else digits (n div 10) @ [''0123456789'' ! (n mod 10)])"

declare digits.simps [simp del]

fun template_string :: "jsval \<Rightarrow> string" where
  \<comment> \<open>what \<open>`${v}`\<close> inserts\<close>
  "template_string JUndefined = ''undefined''"
| "template_string JNull = ''null''"
| "template_string (JBool b) = (if b then ''true'' else ''false'')"
| "template_string (JNum n) = (if n < 0 then ''-'' @ digits (nat (- n)) else digits (nat n))"
| "template_string (JStr s) = s"
| "template_string (JRef r) = ''[object Object]''"

section \<open>The world outside the component\<close>

text \<open>
  Every call the review form makes on a collaborator is written to a trace, in the
  order the calls happen. The local draft store, the error handler's captured error and
  the pending timers of the debounced functions are the state those calls act on.
\<close>

datatype effect =
    PreventDefault
  | StopPropagation
  | SetDenormalizedReview jsobj
  | UpdateReviewText jsobj
  | OnReviewSubmitted
  | RefreshAddon jsobj
  | LocalStateLoad string
  | LocalStateSave string jsobj
  | LocalStateClear string

record debounced =
  wait :: nat
  target :: string
  pending :: "(nat \<times> jsobj) option"

record world =
  store :: "string \<rightharpoonup> jsobj"
  capturedError :: "jsval \<rightharpoonup> jsval"
  debouncers :: "debounced list"
  clock :: nat
  trace :: "effect list"

definition emit :: "effect \<Rightarrow> world \<Rightarrow> world" where
  "emit e w = w\<lparr>trace := trace w @ [e]\<rparr>"

definition effects_since :: "world \<Rightarrow> world \<Rightarrow> effect list" where
  \<comment> \<open>the calls made between an earlier world and a later one\<close>
  "effects_since w w' = drop (length (trace w)) (trace w')"

fun saves :: "effect list \<Rightarrow> (string \<times> jsobj) list" where
  "saves [] = []"
| "saves (LocalStateSave k s # es) = (k, s) # saves es"
| "saves (e # es) = saves es"

fun clears :: "effect list \<Rightarrow> string list" where
  "clears [] = []"
| "clears (LocalStateClear k # es) = k # clears es"
| "clears (e # es) = clears es"

fun published :: "effect list \<Rightarrow> jsobj list" where
  "published [] = []"
| "published (SetDenormalizedReview u # es) = u # published es"
| "published (e # es) = published es"

fun requests :: "effect list \<Rightarrow> jsobj list" where
  "requests [] = []"
| "requests (UpdateReviewText params # es) = params # requests es"
| "requests (e # es) = requests es"

fun refreshes :: "effect list \<Rightarrow> jsobj list" where
  "refreshes [] = []"
| "refreshes (RefreshAddon args # es) = args # refreshes es"
| "refreshes (e # es) = refreshes es"

text \<open>
  Modelled from the spec: \<open>core/localState\<close> (the \<open>LocalState\<close> class and its creator)
  is not among the source files. The spec gives the store as a key-value persistence
  keyed by draft id with \<open>load(id) -> Draft|null\<close>, \<open>save(id, Draft)\<close>, \<open>clear(id)\<close>:
  entries are overwritten on each save and deleted on clear.
\<close>

definition localState_load :: "string \<Rightarrow> world \<Rightarrow> jsobj option \<times> world" where
  "localState_load key w = (store w key, emit (LocalStateLoad key) w)"

definition localState_save :: "string \<Rightarrow> jsobj \<Rightarrow> world \<Rightarrow> world" where
  "localState_save key s w = emit (LocalStateSave key s) (w\<lparr>store := (store w)(key \<mapsto> s)\<rparr>)"

definition localState_clear :: "string \<Rightarrow> world \<Rightarrow> world" where
  "localState_clear key w = emit (LocalStateClear key) (w\<lparr>store := (store w)(key := None)\<rparr>)"

text \<open>
  Modelled from the spec: \<open>lodash.debounce\<close>, the default of the \<open>debounce\<close> prop, is a
  library outside the source files. The spec's glossary: coalescing rapid repeated
  triggers into one delayed action after a quiet period. \<open>debounce\<close> makes a new
  debounced function with a timer of its own; calling that function stores the latest
  arguments and restarts its timer; when the timer runs out the wrapped callback runs
  once, on the latest arguments. The callback the form wraps is
  \<open>(state) => this.localState.save(state)\<close>, so a debounced function records the key of
  the \<open>LocalState\<close> it saves to.
\<close>

definition debounce :: "string \<Rightarrow> nat \<Rightarrow> world \<Rightarrow> nat \<times> world" where
  "debounce key ms w =
     (length (debouncers w),
      w\<lparr>debouncers := debouncers w @ [\<lparr>wait = ms, target = key, pending = None\<rparr>]\<rparr>)"

definition call_debounced :: "nat \<Rightarrow> jsobj \<Rightarrow> world \<Rightarrow> world" where
  "call_debounced i args w =
     (if i < length (debouncers w)
      then w\<lparr>debouncers := (debouncers w)
             [i := (debouncers w ! i)\<lparr>pending := Some (clock w + wait (debouncers w ! i), args)\<rparr>]\<rparr>
      else w)"

fun due :: "nat \<Rightarrow> debounced list \<Rightarrow> (nat \<times> string \<times> jsobj) list" where
  "due t [] = []"
| "due t (d # ds) =
     (case pending d of
        None \<Rightarrow> due t ds
      | Some (deadline, args) \<Rightarrow>
          if deadline \<le> t then (deadline, target d, args) # due t ds else due t ds)"

definition settle :: "nat \<Rightarrow> debounced \<Rightarrow> debounced" where
  "settle t d =
     (case pending d of
        None \<Rightarrow> d
      | Some (deadline, args) \<Rightarrow> if deadline \<le> t then d\<lparr>pending := None\<rparr> else d)"

fun run_saves :: "(nat \<times> string \<times> jsobj) list \<Rightarrow> world \<Rightarrow> world" where
  "run_saves [] w = w"
| "run_saves ((deadline, key, args) # xs) w = run_saves xs (localState_save key args w)"

definition timers_within :: "nat \<Rightarrow> world \<Rightarrow> bool" where
  \<comment> \<open>every pending timer runs out at most \<open>ms\<close> milliseconds from now\<close>
  "timers_within ms w =
     list_all (\<lambda>d. case pending d of None \<Rightarrow> True
                        | Some (deadline, args) \<Rightarrow> deadline \<le> clock w + ms)
       (debouncers w)"

definition pending_count :: "world \<Rightarrow> nat" where
  \<comment> \<open>how many debounced functions have a timer running\<close>
  "pending_count w = length (filter (\<lambda>d. pending d \<noteq> None) (debouncers w))"

definition elapse :: "nat \<Rightarrow> world \<Rightarrow> world" where
  \<comment> \<open>\<open>ms\<close> milliseconds pass: the timers that run out fire, earliest deadline first\<close>
  "elapse ms w =
     (let t = clock w + ms
      in run_saves (sort_key fst (due t (debouncers w)))
           (w\<lparr>clock := t, debouncers := map (settle t) (debouncers w)\<rparr>))"

section \<open>The review form: \<open>AddonReviewBase\<close>\<close>

datatype error = InvariantViolation string | TypeError | UnexpectedReview

datatype promise = Fulfilled | Rejected jsval

datatype remote = Succeeds | Fails jsval

text \<open>
  What a call of one of the function props does: it returns, a promise or a plain value
  (a plain value counts as a fulfilled promise), or it throws. Calling a prop that is
  not a function throws a \<open>TypeError\<close> at the call, which counts as the second case.
\<close>

datatype call = Returns promise | Throws jsval

fun promise_all :: "promise list \<Rightarrow> promise" where
  \<comment> \<open>\<open>Promise.all\<close>: fulfilled when all are; otherwise rejected with the reason of a
    rejected one, here the first in the array\<close>
  "promise_all [] = Fulfilled"
| "promise_all (Fulfilled # ps) = promise_all ps"
| "promise_all (Rejected e # ps) = Rejected e"

record props =
  review :: "jsobj option"
  has_createLocalState :: bool
  has_debounce :: bool
  has_refreshAddon :: bool
  has_setDenormalizedReview :: bool
  has_updateReviewText :: bool
  apiState :: jsval
  errorHandler :: jsval

record component =
  props :: props
  state :: jsobj
  localState :: string

definition setState :: "component \<Rightarrow> jsobj \<Rightarrow> component" where
  \<comment> \<open>React merges the partial state into the current one\<close>
  "setState c partial = c\<lparr>state := state c ++ partial\<rparr>"

definition constructor :: "props \<Rightarrow> world \<Rightarrow> error + (component \<times> world)" where
  "constructor p w =
     (case review p of
        None \<Rightarrow> Inl TypeError
      | Some r \<Rightarrow>
          if \<not> has_createLocalState p
          then Inl (InvariantViolation ''createLocalState() is undefined'')
          else
            let key = ''AddonReview:'' @ template_string (field r ''id'')
            in Inr (\<lparr>props = p, state = [''reviewBody'' \<mapsto> field r ''body''], localState = key\<rparr>,
                    snd (localState_load key w)))"

definition checkForStoredState_then :: "component \<Rightarrow> jsobj option \<Rightarrow> component" where
  \<comment> \<open>the callback of \<open>checkForStoredState\<close>, run when the load promise resolves\<close>
  "checkForStoredState_then c storedState =
     (case storedState of None \<Rightarrow> c | Some s \<Rightarrow> setState c s)"

definition mount :: "props \<Rightarrow> world \<Rightarrow> error + (component \<times> world)" where
  \<comment> \<open>construction followed by the resolution of the load started in the constructor\<close>
  "mount p w =
     (case constructor p w of
        Inl e \<Rightarrow> Inl e
      | Inr (c, w') \<Rightarrow> Inr (checkForStoredState_then c (store w (localState c)), w'))"

definition componentWillReceiveProps :: "component \<Rightarrow> props \<Rightarrow> component" where
  "componentWillReceiveProps c nextProps =
     (case review nextProps of
        None \<Rightarrow> c
      | Some r \<Rightarrow> setState c [''reviewBody'' \<mapsto> field r ''body''])"

text \<open>
  Modelled from the spec: \<open>amo/api/reviews\<close> (\<open>submitReview\<close>) and \<open>core/errorHandler\<close>
  are not among the source files. The spec: a failure of the remote update call is
  surfaced through the error-display mechanism. The remote call is given the
  \<open>errorHandler\<close> in its parameters; when it fails, that handler captures the error and the
  promise is rejected. \<open>renderErrorIfPresent\<close> shows the error its handler has captured.
\<close>

definition updateReviewText :: "jsobj \<Rightarrow> remote \<Rightarrow> world \<Rightarrow> promise \<times> world" where
  "updateReviewText params r w =
     (let w1 = emit (UpdateReviewText params) w
      in case r of
           Succeeds \<Rightarrow> (Fulfilled, w1)
         | Fails e \<Rightarrow>
             (Rejected e,
              w1\<lparr>capturedError := (capturedError w1)(field params ''errorHandler'' \<mapsto> e)\<rparr>))"

definition renderErrorIfPresent :: "jsval \<Rightarrow> world \<Rightarrow> jsval option" where
  "renderErrorIfPresent handler w = capturedError w handler"

text \<open>
  \<open>onSubmit\<close>, given what the remote call and the two callbacks of the success
  continuation do. The continuation builds the array
  \<open>[onReviewSubmitted(), this.localState.clear(), refreshAddon(...)]\<close> from left to right:
  when \<open>onReviewSubmitted()\<close> throws, neither \<open>clear()\<close> nor \<open>refreshAddon\<close> is
  called and the promise is rejected; when \<open>refreshAddon\<close> throws, the other two calls
  have been made.
\<close>

definition onSubmit ::
  "component \<Rightarrow> remote \<Rightarrow> call \<Rightarrow> call \<Rightarrow> world \<Rightarrow> (error + promise) \<times> world" where
  "onSubmit c r onReviewSubmitted refreshAddon w =
     (let p = props c in
      if \<not> has_refreshAddon p then (Inl (InvariantViolation ''refreshAddon() is undefined''), w)
      else if \<not> has_updateReviewText p
      then (Inl (InvariantViolation ''updateReviewText() is undefined''), w)
      else if \<not> has_setDenormalizedReview p
      then (Inl (InvariantViolation ''setDenormalizedReview() is undefined''), w)
      else
        let reviewBody = field (state c) ''reviewBody'';
            w1 = emit StopPropagation (emit PreventDefault w);
            newReviewParams = [''body'' \<mapsto> js_or reviewBody JUndefined];
            updatedReview = spread (review p) ++ newReviewParams
        in case review p of
             None \<Rightarrow> (Inl TypeError, w1)
           | Some rv \<Rightarrow>
               let params =
                     [''addonId'' \<mapsto> field rv ''addonId'',
                      ''apiState'' \<mapsto> apiState p,
                      ''errorHandler'' \<mapsto> errorHandler p,
                      ''rating'' \<mapsto> field rv ''rating'',
                      ''reviewId'' \<mapsto> field rv ''id''] ++ newReviewParams;
                   w2 = emit (SetDenormalizedReview updatedReview) w1
               in case updateReviewText params r w2 of
                    (Rejected e, w3) \<Rightarrow> (Inr (Rejected e), w3)
                  | (Fulfilled, w3) \<Rightarrow>
                      let w4 = emit OnReviewSubmitted w3
                      in case onReviewSubmitted of
                           Throws e \<Rightarrow> (Inr (Rejected e), w4)
                         | Returns submitted \<Rightarrow>
                             let w5 = localState_clear (localState c) w4;
                                 w6 = emit (RefreshAddon
                                        [''addonSlug'' \<mapsto> field rv ''addonSlug'',
                                         ''apiState'' \<mapsto> apiState p]) w5
                             in case refreshAddon of
                                  Throws e \<Rightarrow> (Inr (Rejected e), w6)
                                | Returns refreshed \<Rightarrow>
                                    (Inr (promise_all [submitted, Fulfilled, refreshed]), w6))"

definition onBodyInput :: "component \<Rightarrow> string \<Rightarrow> world \<Rightarrow> error + (component \<times> world)" where
  "onBodyInput c v w =
     (if \<not> has_debounce (props c) then Inl (InvariantViolation ''debounce() is undefined'')
      else
        let (saveState, w1) = debounce (localState c) 800 w;
            newState = [''reviewBody'' \<mapsto> JStr v];
            w2 = call_debounced saveState newState w1
        in Inr (setState c newState, w2))"

definition onSelectRating :: "component \<Rightarrow> int \<Rightarrow> world \<Rightarrow> error + (component \<times> world)" where
  "onSelectRating c rating w =
     (if \<not> has_setDenormalizedReview (props c)
      then Inl (InvariantViolation ''setDenormalizedReview() is undefined'')
      else Inr (c, emit (SetDenormalizedReview
                  ((spread (review (props c)))
                     (''body'' \<mapsto> js_or (field (state c) ''reviewBody'') JUndefined,
                      ''rating'' \<mapsto> JNum rating))) w))"

text \<open>
  What \<open>render\<close> hands to the page, as far as the draft is concerned: the review given
  to the rating widget, the value of the text area and the error display. The prompt and
  placeholder texts are internationalised strings chosen from the rating and are left out.
\<close>

record view =
  userRating_review :: jsobj
  textarea_value :: jsval
  error_display :: "jsval option"

definition render :: "component \<Rightarrow> world \<Rightarrow> error + view" where
  "render c w =
     (case review (props c) of
        None \<Rightarrow> Inl UnexpectedReview
      | Some r \<Rightarrow>
          if \<not> truthy (field r ''id'') \<or> \<not> truthy (field r ''addonSlug'')
          then Inl UnexpectedReview
          else Inr \<lparr>userRating_review = r,
                    textarea_value = field (state c) ''reviewBody'',
                    error_display = renderErrorIfPresent (errorHandler (props c)) w\<rparr>)"

text \<open>
  A submit event on the form. The handler is the one \<open>render\<close> attaches to the
  \<open><form>\<close> element it returns (\<open>onSubmit={this.onSubmit}\<close>), and \<open>render\<close> runs on the
  props and state the form has: the event reaches \<open>onSubmit\<close> only when \<open>render\<close> has
  returned the element. When \<open>render\<close> throws there is no form to submit, and nothing
  else happens.
\<close>

definition submit_event ::
  "component \<Rightarrow> remote \<Rightarrow> call \<Rightarrow> call \<Rightarrow> world \<Rightarrow> (error + promise) \<times> world" where
  "submit_event c r onReviewSubmitted refreshAddon w =
     (case render c w of
        Inl e \<Rightarrow> (Inl e, w)
      | Inr v \<Rightarrow> onSubmit c r onReviewSubmitted refreshAddon w)"

fun body_edits :: "component \<Rightarrow> (nat \<times> string) list \<Rightarrow> world \<Rightarrow> error + (component \<times> world)" where
  \<comment> \<open>a sequence of input events on the text area, each after a pause in milliseconds\<close>
  "body_edits c [] w = Inr (c, w)"
| "body_edits c ((gap, v) # es) w =
     (case onBodyInput c v (elapse gap w) of
        Inl e \<Rightarrow> Inl e
      | Inr (c', w') \<Rightarrow> body_edits c' es w')"

section \<open>The error boundary: \<open>ErrorPageBase\<close>\<close>

datatype ('c, 'n) node = Element 'c jsobj | Passthrough 'n

record ('c, 'n) errorPage_props =
  children :: 'n
  errorPage :: jsobj
  getErrorComponent :: "jsval \<Rightarrow> 'c"

definition ErrorPage_render :: "('c, 'n) errorPage_props \<Rightarrow> ('c, 'n) node" where
  "ErrorPage_render p =
     (if truthy (field (errorPage p) ''hasError'')
      then Element (getErrorComponent p (field (errorPage p) ''statusCode''))
             [''error'' \<mapsto> field (errorPage p) ''error'',
              ''status'' \<mapsto> field (errorPage p) ''statusCode'']
      else Passthrough (children p))"

section \<open>Concrete inputs\<close>

definition world0 :: world where
  "world0 = \<lparr>store = Map.empty, capturedError = Map.empty, debouncers = [], clock = 0, trace = []\<rparr>"

definition review_r1 :: jsobj where
  "review_r1 = [''id'' \<mapsto> JStr ''r1'', ''addonId'' \<mapsto> JNum 7, ''addonSlug'' \<mapsto> JStr ''ublock'',
                ''body'' \<mapsto> JStr ''old'', ''rating'' \<mapsto> JNum 5]"

definition props_r1 :: props where
  "props_r1 = \<lparr>review = Some review_r1, has_createLocalState = True, has_debounce = True,
     has_refreshAddon = True, has_setDenormalizedReview = True, has_updateReviewText = True,
     apiState = JRef ''apiState'', errorHandler = JRef ''errorHandler''\<rparr>"

definition form_r1 :: component where
  "form_r1 = \<lparr>props = props_r1, state = [''reviewBody'' \<mapsto> JStr ''old''],
     localState = ''AddonReview:r1''\<rparr>"

definition stored_draft :: jsobj where
  "stored_draft = [''reviewBody'' \<mapsto> JStr ''draft'', ''rating'' \<mapsto> JNum 1]"

definition world_draft :: world where
  "world_draft = world0\<lparr>store := [''AddonReview:r1'' \<mapsto> stored_draft]\<rparr>"

definition review_noid :: jsobj where
  "review_noid = [''addonId'' \<mapsto> JNum 7, ''addonSlug'' \<mapsto> JStr ''ublock'',
                  ''body'' \<mapsto> JStr ''old'', ''rating'' \<mapsto> JNum 5]"

definition form_noid :: component where
  "form_noid = \<lparr>props = props_r1\<lparr>review := Some review_noid\<rparr>,
     state = [''reviewBody'' \<mapsto> JStr ''old''], localState = ''AddonReview:undefined''\<rparr>"

definition two_edits :: "error + (component \<times> world)" where
  "two_edits = body_edits form_r1 [(0, ''a''), (100, ''ab'')] world0"

definition one_edit :: "error + (component \<times> world)" where
  "one_edit = body_edits form_r1 [(0, ''great addon'')] world0"

definition mounted_draft :: "error + (component \<times> world)" where
  "mounted_draft = mount props_r1 world_draft"

definition view_draft :: "error + view" where
  "view_draft = render (fst (projr mounted_draft)) (snd (projr mounted_draft))"

definition form_edited :: component where
  "form_edited = form_r1\<lparr>state := [''reviewBody'' \<mapsto> JStr ''unsaved edit'']\<rparr>"

definition form_blank :: component where
  "form_blank = form_r1\<lparr>state := [''reviewBody'' \<mapsto> JStr []]\<rparr>"

definition shared_debounced :: world where
  \<comment> \<open>one debounced function, called twice 100 ms apart, then left alone\<close>
  "shared_debounced =
     (let (saveState, w1) = debounce ''AddonReview:r1'' 800 world0;
          w2 = call_debounced saveState [''reviewBody'' \<mapsto> JStr ''a''] w1;
          w3 = call_debounced saveState [''reviewBody'' \<mapsto> JStr ''ab''] (elapse 100 w2)
      in elapse 800 w3)"

section \<open>Properties\<close>




subsection \<open>Facts about the world and the trace\<close>

lemma trace_emit [simp]: "trace (emit e w) = trace w @ [e]"
  and store_emit [simp]: "store (emit e w) = store w"
  and capturedError_emit [simp]: "capturedError (emit e w) = capturedError w"
  and debouncers_emit [simp]: "debouncers (emit e w) = debouncers w"
  and clock_emit [simp]: "clock (emit e w) = clock w"
  by (simp_all add: emit_def)

lemma effects_since_append: "trace w' = trace w @ es \<Longrightarrow> effects_since w w' = es"
  by (simp add: effects_since_def)

lemmas concrete_defs = world0_def review_r1_def props_r1_def form_r1_def stored_draft_def
  world_draft_def review_noid_def form_noid_def two_edits_def one_edit_def
  mounted_draft_def view_draft_def form_edited_def form_blank_def shared_debounced_def

lemmas step_defs = onBodyInput_def debounce_def call_debounced_def elapse_def settle_def
  localState_save_def emit_def setState_def Let_def

lemma constructor_r1:
  "constructor props_r1 world0 = Inr (form_r1, emit (LocalStateLoad ''AddonReview:r1'') world0)"
  by (simp add: constructor_def props_r1_def review_r1_def form_r1_def field_def
      localState_load_def Let_def)

lemma constructor_noid:
  "constructor (props_r1\<lparr>review := Some review_noid\<rparr>) world0 =
     Inr (form_noid, emit (LocalStateLoad ''AddonReview:undefined'') world0)"
  by (simp add: constructor_def props_r1_def review_noid_def form_noid_def field_def
      localState_load_def Let_def)

lemma constructor_numeric_id:
  "map_sum id (localState \<circ> fst)
     (constructor (props_r1\<lparr>review := Some (review_r1(''id'' \<mapsto> JNum 8877))\<rparr>) world0) =
   Inr ''AddonReview:8877''"
  by (simp add: constructor_def props_r1_def review_r1_def field_def localState_load_def
      Let_def digits.simps)

subsection \<open>Timers\<close>

lemma due_append: "due t (ds @ es) = due t ds @ due t es"
  by (induction ds) (simp_all split: option.splits)

lemma due_bounded:
  "list_all (\<lambda>d. case pending d of None \<Rightarrow> True | Some (deadline, args) \<Rightarrow> deadline \<le> b) ds
   \<Longrightarrow> \<forall>x \<in> set (due t ds). fst x \<le> b"
  by (induction ds) (auto split: option.splits)

lemma insort_key_before_last:
  "f y \<le> f x \<Longrightarrow> insort_key f y (ys @ [x]) = insort_key f y ys @ [x]"
  by (induction ys) simp_all

lemma sort_key_snoc_max:
  "\<forall>y \<in> set xs. f y \<le> f x \<Longrightarrow> sort_key f (xs @ [x]) = sort_key f xs @ [x]"
  by (induction xs) (simp_all add: insort_key_before_last)

lemma run_saves_append: "run_saves (xs @ ys) w = run_saves ys (run_saves xs w)"
  by (induction xs arbitrary: w) auto

lemma run_saves_trace:
  "trace (run_saves xs w) = trace w @ map (\<lambda>(deadline, key, args). LocalStateSave key args) xs"
  by (induction xs arbitrary: w) (auto simp: localState_save_def)

lemma saves_snoc: "saves (es @ [LocalStateSave k s]) = saves es @ [(k, s)]"
  by (induction es rule: saves.induct) simp_all

text \<open>
  The timer model coalesces as a debounced function does: one debounced function called
  twice within its window saves once, the later arguments.
\<close>

lemma shared_debounced_coalesces:
  "saves (trace shared_debounced) = [(''AddonReview:r1'', [''reviewBody'' \<mapsto> JStr ''ab''])]"
  by (simp add: concrete_defs step_defs)

subsection \<open>What the handlers compute\<close>

lemma onSubmit_succeeds:
  assumes "has_refreshAddon (props c)" "has_updateReviewText (props c)"
    "has_setDenormalizedReview (props c)" "review (props c) = Some rv"
  shows "onSubmit c Succeeds (Returns submitted) ra w =
    (Inr (case ra of Throws e \<Rightarrow> Rejected e
                   | Returns refreshed \<Rightarrow> promise_all [submitted, Fulfilled, refreshed]),
     w\<lparr>store := (store w)(localState c := None),
       trace := trace w @
         [PreventDefault, StopPropagation,
          SetDenormalizedReview (rv(''body'' \<mapsto> js_or (field (state c) ''reviewBody'') JUndefined)),
          UpdateReviewText
            [''addonId'' \<mapsto> field rv ''addonId'',
             ''apiState'' \<mapsto> apiState (props c),
             ''errorHandler'' \<mapsto> errorHandler (props c),
             ''rating'' \<mapsto> field rv ''rating'',
             ''reviewId'' \<mapsto> field rv ''id'',
             ''body'' \<mapsto> js_or (field (state c) ''reviewBody'') JUndefined],
          OnReviewSubmitted, LocalStateClear (localState c),
          RefreshAddon [''addonSlug'' \<mapsto> field rv ''addonSlug'',
                        ''apiState'' \<mapsto> apiState (props c)]]\<rparr>)"
  using assms
  by (simp add: onSubmit_def Let_def updateReviewText_def localState_clear_def emit_def spread_def
      split: call.splits)

lemma onSubmit_callback_throws:
  assumes "has_refreshAddon (props c)" "has_updateReviewText (props c)"
    "has_setDenormalizedReview (props c)" "review (props c) = Some rv"
  shows "onSubmit c Succeeds (Throws e) ra w =
    (Inr (Rejected e),
     w\<lparr>trace := trace w @
         [PreventDefault, StopPropagation,
          SetDenormalizedReview (rv(''body'' \<mapsto> js_or (field (state c) ''reviewBody'') JUndefined)),
          UpdateReviewText
            [''addonId'' \<mapsto> field rv ''addonId'',
             ''apiState'' \<mapsto> apiState (props c),
             ''errorHandler'' \<mapsto> errorHandler (props c),
             ''rating'' \<mapsto> field rv ''rating'',
             ''reviewId'' \<mapsto> field rv ''id'',
             ''body'' \<mapsto> js_or (field (state c) ''reviewBody'') JUndefined],
          OnReviewSubmitted]\<rparr>)"
  using assms
  by (simp add: onSubmit_def Let_def updateReviewText_def emit_def spread_def)

lemma onSubmit_fails:
  assumes "has_refreshAddon (props c)" "has_updateReviewText (props c)"
    "has_setDenormalizedReview (props c)" "review (props c) = Some rv"
  shows "onSubmit c (Fails e) cb ra w =
    (Inr (Rejected e),
     w\<lparr>capturedError := (capturedError w)(errorHandler (props c) \<mapsto> e),
       trace := trace w @
         [PreventDefault, StopPropagation,
          SetDenormalizedReview (rv(''body'' \<mapsto> js_or (field (state c) ''reviewBody'') JUndefined)),
          UpdateReviewText
            [''addonId'' \<mapsto> field rv ''addonId'',
             ''apiState'' \<mapsto> apiState (props c),
             ''errorHandler'' \<mapsto> errorHandler (props c),
             ''rating'' \<mapsto> field rv ''rating'',
             ''reviewId'' \<mapsto> field rv ''id'',
             ''body'' \<mapsto> js_or (field (state c) ''reviewBody'') JUndefined]]\<rparr>)"
  using assms
  by (simp add: onSubmit_def Let_def updateReviewText_def emit_def spread_def field_def)

lemma onSubmit_no_review:
  assumes "has_refreshAddon (props c)" "has_updateReviewText (props c)"
    "has_setDenormalizedReview (props c)" "review (props c) = None"
  shows "onSubmit c r cb ra w = (Inl TypeError, emit StopPropagation (emit PreventDefault w))"
  using assms by (simp add: onSubmit_def Let_def)

lemma onSubmit_checks_injected_functions:
  assumes "\<not> (has_refreshAddon (props c) \<and> has_updateReviewText (props c) \<and>
             has_setDenormalizedReview (props c))"
  shows "\<exists>m. onSubmit c r cb ra w = (Inl (InvariantViolation m), w)"
  using assms by (auto simp: onSubmit_def Let_def)

lemma onSubmit_calls:
  assumes "review (props c) = Some rv"
  shows "(\<forall>params \<in> set (requests (effects_since w (snd (onSubmit c r cb ra w)))).
            field params ''reviewId'' = field rv ''id'') \<and>
         (\<forall>args \<in> set (refreshes (effects_since w (snd (onSubmit c r cb ra w)))).
            field args ''addonSlug'' = field rv ''addonSlug'')"
  using assms
  by (simp add: onSubmit_def Let_def updateReviewText_def localState_clear_def emit_def
      effects_since_def field_def split: remote.splits call.splits)

lemma constructor_key:
  assumes "constructor p w = Inr (c, w')" and "review p = Some r"
  shows "props c = p \<and> localState c = ''AddonReview:'' @ template_string (field r ''id'')"
  using assms by (auto simp: constructor_def Let_def split: if_splits)

lemma handlers_keep_key:
  "localState (componentWillReceiveProps c nextProps) = localState c"
  "localState (setState c s) = localState c"
  "localState (checkForStoredState_then c stored) = localState c"
  by (simp_all add: componentWillReceiveProps_def setState_def checkForStoredState_then_def
      split: option.splits)

lemma submit_event_invalid:
  assumes "review (props c) = None \<or>
           \<not> truthy (field (spread (review (props c))) ''id'') \<or>
           \<not> truthy (field (spread (review (props c))) ''addonSlug'')"
  shows "submit_event c r cb ra w = (Inl UnexpectedReview, w)"
  using assms by (auto simp: submit_event_def render_def spread_def split: option.splits)

lemma submit_event_valid:
  assumes "review (props c) = Some rv" and "truthy (field rv ''id'')"
    and "truthy (field rv ''addonSlug'')"
  shows "submit_event c r cb ra w = onSubmit c r cb ra w"
  using assms by (simp add: submit_event_def render_def)

lemma onBodyInput_run:
  assumes "has_debounce (props c)"
  shows "onBodyInput c v w =
    Inr (c\<lparr>state := (state c)(''reviewBody'' \<mapsto> JStr v)\<rparr>,
         w\<lparr>debouncers := debouncers w @
             [\<lparr>wait = 800, target = localState c,
               pending = Some (clock w + 800, [''reviewBody'' \<mapsto> JStr v])\<rparr>]\<rparr>)"
  using assms by (simp add: onBodyInput_def debounce_def call_debounced_def setState_def Let_def)

lemma elapse_after_edit:
  assumes "timers_within 800 w" and "800 \<le> ms"
  shows "elapse ms (w\<lparr>debouncers := debouncers w @
             [\<lparr>wait = 800, target = key, pending = Some (clock w + 800, args)\<rparr>]\<rparr>) =
         localState_save key args
           (run_saves (sort_key fst (due (clock w + ms) (debouncers w)))
              (w\<lparr>clock := clock w + ms,
                 debouncers := map (settle (clock w + ms)) (debouncers w) @
                   [\<lparr>wait = 800, target = key, pending = None\<rparr>]\<rparr>))"
proof -
  from assms(1) have "\<forall>x \<in> set (due (clock w + ms) (debouncers w)). fst x \<le> clock w + 800"
    unfolding timers_within_def by (rule due_bounded)
  then have "sort_key fst (due (clock w + ms) (debouncers w) @ [(clock w + 800, key, args)]) =
      sort_key fst (due (clock w + ms) (debouncers w)) @ [(clock w + 800, key, args)]"
    by (intro sort_key_snoc_max) simp
  with assms(2) show ?thesis
    by (simp add: elapse_def Let_def due_append settle_def run_saves_append)
qed

lemma mount_run:
  assumes "review p = Some r" and "has_createLocalState p"
  shows "mount p w =
    Inr (checkForStoredState_then
           \<lparr>props = p, state = [''reviewBody'' \<mapsto> field r ''body''],
            localState = ''AddonReview:'' @ template_string (field r ''id'')\<rparr>
           (store w (''AddonReview:'' @ template_string (field r ''id''))),
         emit (LocalStateLoad (''AddonReview:'' @ template_string (field r ''id''))) w)"
  using assms by (simp add: mount_def constructor_def localState_load_def Let_def)

subsection \<open>Every edit has a timer of its own\<close>

lemma saves_append: "saves (xs @ ys) = saves xs @ saves ys"
  by (induction xs rule: saves.induct) simp_all

lemma saves_of_run: "saves (map (\<lambda>(deadline, key, args). LocalStateSave key args) xs) =
    map snd xs"
  by (induction xs) auto

lemma run_saves_debouncers: "debouncers (run_saves xs w) = debouncers w"
  by (induction xs arbitrary: w) (auto simp: localState_save_def)

lemma run_saves_clock: "clock (run_saves xs w) = clock w"
  by (induction xs arbitrary: w) (auto simp: localState_save_def)

lemma trace_elapse:
  "trace (elapse ms w) = trace w @
     map (\<lambda>(deadline, key, args). LocalStateSave key args)
       (sort_key fst (due (clock w + ms) (debouncers w)))"
  by (simp add: elapse_def Let_def run_saves_trace)

lemma debouncers_elapse: "debouncers (elapse ms w) = map (settle (clock w + ms)) (debouncers w)"
  by (simp add: elapse_def Let_def run_saves_debouncers)

lemma clock_elapse: "clock (elapse ms w) = clock w + ms"
  by (simp add: elapse_def Let_def run_saves_clock)

lemma due_settle_count:
  "length (due t ds) + length (filter (\<lambda>d. pending d \<noteq> None) (map (settle t) ds)) =
   length (filter (\<lambda>d. pending d \<noteq> None) ds)"
  by (induction ds) (auto simp: settle_def split: option.splits)

lemma elapse_keeps_total:
  "length (saves (trace (elapse ms w))) + pending_count (elapse ms w) =
   length (saves (trace w)) + pending_count w"
  using due_settle_count [of "clock w + ms" "debouncers w"]
  by (simp add: trace_elapse saves_append saves_of_run pending_count_def debouncers_elapse)

lemma timers_within_elapse: "timers_within b w \<Longrightarrow> timers_within b (elapse ms w)"
  by (auto simp: timers_within_def debouncers_elapse clock_elapse list_all_iff settle_def
      split: option.splits if_splits)

lemma elapse_fires_all:
  assumes "timers_within b w" and "b \<le> ms"
  shows "pending_count (elapse ms w) = 0"
proof -
  have "pending (settle (clock w + ms) d) = None" if "d \<in> set (debouncers w)" for d
    using that assms by (auto simp: timers_within_def list_all_iff settle_def split: option.splits)
  then show ?thesis
    by (simp add: pending_count_def debouncers_elapse filter_empty_conv)
qed

lemma onBodyInput_adds_timer:
  assumes "has_debounce (props c)" and "timers_within 800 w"
  shows "\<exists>c' w'. onBodyInput c v w = Inr (c', w') \<and> props c' = props c \<and>
           trace w' = trace w \<and> pending_count w' = Suc (pending_count w) \<and>
           timers_within 800 w'"
  using assms
  by (auto simp: onBodyInput_run pending_count_def timers_within_def list_all_iff
      split: option.splits)

text \<open>
  Every edit is saved: after any sequence of body edits and 800 ms of quiet, the
  number of saves made is the number of edits, however close together the edits were.
\<close>

lemma body_edits_total:
  assumes "has_debounce (props c)" and "timers_within 800 w"
  shows "\<exists>c' w'. body_edits c es w = Inr (c', w') \<and> timers_within 800 w' \<and>
           length (saves (trace w')) + pending_count w' =
           length (saves (trace w)) + pending_count w + length es"
  using assms
proof (induction es arbitrary: c w)
  case Nil
  then show ?case by simp
next
  case (Cons e es)
  obtain gap v where e: "e = (gap, v)" by (cases e)
  from Cons.prems(2) have tw: "timers_within 800 (elapse gap w)"
    by (rule timers_within_elapse)
  from onBodyInput_adds_timer [OF Cons.prems(1) tw, of v]
  obtain c1 w1 where step: "onBodyInput c v (elapse gap w) = Inr (c1, w1)"
    and p1: "props c1 = props c" and t1: "trace w1 = trace (elapse gap w)"
    and n1: "pending_count w1 = Suc (pending_count (elapse gap w))"
    and tw1: "timers_within 800 w1"
    by blast
  from p1 Cons.prems(1) have d1: "has_debounce (props c1)" by simp
  from Cons.IH [OF d1 tw1]
  obtain c' w' where rest: "body_edits c1 es w1 = Inr (c', w')"
    and tw': "timers_within 800 w'"
    and tot: "length (saves (trace w')) + pending_count w' =
      length (saves (trace w1)) + pending_count w1 + length es"
    by blast
  from elapse_keeps_total [of gap w] t1 n1 tot
  have "length (saves (trace w')) + pending_count w' =
      length (saves (trace w)) + pending_count w + length (e # es)"
    by simp
  with e step rest tw' show ?case by simp
qed

lemma every_edit_is_saved:
  assumes "has_debounce (props c)" and "timers_within 800 w" and "800 \<le> ms"
  shows "\<exists>c' w'. body_edits c es w = Inr (c', w') \<and>
           length (saves (trace (elapse ms w'))) =
           length (saves (trace w)) + pending_count w + length es"
proof -
  from body_edits_total [OF assms(1,2), of es]
  obtain c' w' where run: "body_edits c es w = Inr (c', w')" and tw: "timers_within 800 w'"
    and tot: "length (saves (trace w')) + pending_count w' =
      length (saves (trace w)) + pending_count w + length es"
    by blast
  from elapse_keeps_total [of ms w'] elapse_fires_all [OF tw assms(3)] tot
  have "length (saves (trace (elapse ms w'))) =
      length (saves (trace w)) + pending_count w + length es"
    by simp
  with run show ?thesis by blast
qed

subsection \<open>The claims\<close>

text \<open>
  C1. The claim: body edits within one 800 ms window lead to exactly one save, of the
  last edit's state. \<open>onBodyInput\<close> makes a new debounced function on every input
  event, so every event has a timer of its own and no save supersedes another. Two
  edits 100 ms apart, followed by 800 ms of quiet, run two saves: the first edit's
  state, then the second's. (For any sequence of edits the number of saves is the number
  of edits: \<open>every_edit_is_saved\<close>.)
\<close>

theorem two_edits_two_saves:
  "\<not> isl two_edits \<and>
   saves (trace (elapse 800 (snd (projr two_edits)))) =
     [(''AddonReview:r1'', [''reviewBody'' \<mapsto> JStr ''a'']),
      (''AddonReview:r1'', [''reviewBody'' \<mapsto> JStr ''ab''])]"
  by (simp add: concrete_defs step_defs)

text \<open>
  C2, as amended. A submit whose remote call succeeds and whose completion callback
  returns, on a form whose injected functions are defined and whose \<open>LocalState\<close> has
  the key of the submitted review's id (the key the constructor gives it,
  \<open>constructor_key\<close>): the calls it made hold exactly one \<open>clear\<close>, on that key, and
  exactly one call of the completion callback, and the store has no entry left under
  the key. This holds whatever \<open>refreshAddon\<close> does, and whether the promise the
  callback returned is fulfilled or rejected.
\<close>

theorem callback_returns_clears_once:
  assumes "has_refreshAddon (props c)" and "has_updateReviewText (props c)"
    and "has_setDenormalizedReview (props c)" and "review (props c) = Some rv"
    and "localState c = ''AddonReview:'' @ template_string (field rv ''id'')"
    and "onSubmit c Succeeds (Returns submitted) ra w = (res, w')"
  shows "clears (effects_since w w') = [''AddonReview:'' @ template_string (field rv ''id'')] \<and>
         count_list (effects_since w w') OnReviewSubmitted = 1 \<and>
         store w' (''AddonReview:'' @ template_string (field rv ''id'')) = None"
proof -
  from assms(6) have eq: "(res, w') = onSubmit c Succeeds (Returns submitted) ra w" by simp
  note run = onSubmit_succeeds [OF assms(1-4), of submitted ra w]
  from eq run have s: "store w' (localState c) = None" by simp
  from eq run have "effects_since w w' =
      [PreventDefault, StopPropagation,
       SetDenormalizedReview (rv(''body'' \<mapsto> js_or (field (state c) ''reviewBody'') JUndefined)),
       UpdateReviewText
         [''addonId'' \<mapsto> field rv ''addonId'',
          ''apiState'' \<mapsto> apiState (props c),
          ''errorHandler'' \<mapsto> errorHandler (props c),
          ''rating'' \<mapsto> field rv ''rating'',
          ''reviewId'' \<mapsto> field rv ''id'',
          ''body'' \<mapsto> js_or (field (state c) ''reviewBody'') JUndefined],
       OnReviewSubmitted, LocalStateClear (localState c),
       RefreshAddon [''addonSlug'' \<mapsto> field rv ''addonSlug'',
                     ''apiState'' \<mapsto> apiState (props c)]]"
    by (intro effects_since_append) simp
  then have "clears (effects_since w w') = [localState c]"
    and "count_list (effects_since w w') OnReviewSubmitted = 1"
    by simp_all
  with s assms(5) show ?thesis by simp
qed

theorem callback_returns_clears_once_witness:
  "clears (effects_since world_draft
      (snd (onSubmit form_r1 Succeeds (Returns Fulfilled) (Returns Fulfilled) world_draft))) =
     [''AddonReview:r1''] \<and>
   count_list (effects_since world_draft
      (snd (onSubmit form_r1 Succeeds (Returns Fulfilled) (Returns Fulfilled) world_draft)))
     OnReviewSubmitted = 1 \<and>
   store world_draft ''AddonReview:r1'' = Some stored_draft \<and>
   store (snd (onSubmit form_r1 Succeeds (Returns Fulfilled) (Returns Fulfilled) world_draft))
     ''AddonReview:r1'' = None"
  using callback_returns_clears_once [of form_r1 review_r1 Fulfilled "Returns Fulfilled" world_draft
      "fst (onSubmit form_r1 Succeeds (Returns Fulfilled) (Returns Fulfilled) world_draft)"
      "snd (onSubmit form_r1 Succeeds (Returns Fulfilled) (Returns Fulfilled) world_draft)"]
  by (simp add: form_r1_def props_r1_def world_draft_def review_r1_def field_def)

text \<open>
  C2 as stated fails: the remote call succeeds and the completion callback throws.
  The callback has been called once, \<open>clear\<close> is never called, and the stored draft is
  still in the store.
\<close>

theorem callback_throws_skips_clear:
  "fst (onSubmit form_r1 Succeeds (Throws (JStr ''boom'')) (Returns Fulfilled) world_draft) =
     Inr (Rejected (JStr ''boom'')) \<and>
   length (requests (effects_since world_draft
      (snd (onSubmit form_r1 Succeeds (Throws (JStr ''boom'')) (Returns Fulfilled) world_draft)))) = 1 \<and>
   count_list (effects_since world_draft
      (snd (onSubmit form_r1 Succeeds (Throws (JStr ''boom'')) (Returns Fulfilled) world_draft)))
     OnReviewSubmitted = 1 \<and>
   clears (effects_since world_draft
      (snd (onSubmit form_r1 Succeeds (Throws (JStr ''boom'')) (Returns Fulfilled) world_draft))) = [] \<and>
   store (snd (onSubmit form_r1 Succeeds (Throws (JStr ''boom'')) (Returns Fulfilled) world_draft))
     ''AddonReview:r1'' = Some stored_draft"
  by (simp add: onSubmit_def Let_def updateReviewText_def emit_def spread_def field_def
      effects_since_def form_r1_def props_r1_def review_r1_def world_draft_def world0_def)

text \<open>
  C3. A submit whose remote call fails, on a form whose injected functions are defined
  and whose review has an id and a slug: the promise is rejected with the error, no
  \<open>clear\<close> is called and the store is as it was, and the next \<open>render\<close> shows the error
  in the error display, above a text area that still holds the draft.
\<close>

theorem submit_failure_keeps_draft:
  assumes "has_refreshAddon (props c)" and "has_updateReviewText (props c)"
    and "has_setDenormalizedReview (props c)" and "review (props c) = Some rv"
    and "truthy (field rv ''id'')" and "truthy (field rv ''addonSlug'')"
    and "onSubmit c (Fails e) cb ra w = (res, w')"
  shows "res = Inr (Rejected e) \<and>
         clears (effects_since w w') = [] \<and>
         store w' = store w \<and>
         render c w' = Inr \<lparr>userRating_review = rv,
                            textarea_value = field (state c) ''reviewBody'',
                            error_display = Some e\<rparr>"
proof -
  from assms have eq: "(res, w') = onSubmit c (Fails e) cb ra w" by simp
  note run = onSubmit_fails [OF assms(1-4), of e cb ra w]
  from eq run have r: "res = Inr (Rejected e)" and s: "store w' = store w"
    and h: "capturedError w' (errorHandler (props c)) = Some e"
    by simp_all
  from eq run have "effects_since w w' =
      [PreventDefault, StopPropagation,
       SetDenormalizedReview (rv(''body'' \<mapsto> js_or (field (state c) ''reviewBody'') JUndefined)),
       UpdateReviewText
         [''addonId'' \<mapsto> field rv ''addonId'',
          ''apiState'' \<mapsto> apiState (props c),
          ''errorHandler'' \<mapsto> errorHandler (props c),
          ''rating'' \<mapsto> field rv ''rating'',
          ''reviewId'' \<mapsto> field rv ''id'',
          ''body'' \<mapsto> js_or (field (state c) ''reviewBody'') JUndefined]]"
    by (intro effects_since_append) simp
  then have c: "clears (effects_since w w') = []" by simp
  from assms(4-6) h have "render c w' = Inr \<lparr>userRating_review = rv,
      textarea_value = field (state c) ''reviewBody'', error_display = Some e\<rparr>"
    by (simp add: render_def renderErrorIfPresent_def)
  with r s c show ?thesis by simp
qed

theorem submit_failure_keeps_draft_witness:
  "fst (onSubmit form_edited (Fails (JStr ''500'')) (Returns Fulfilled) (Returns Fulfilled) world_draft) = Inr (Rejected (JStr ''500'')) \<and>
   clears (effects_since world_draft (snd (onSubmit form_edited (Fails (JStr ''500'')) (Returns Fulfilled) (Returns Fulfilled) world_draft))) = [] \<and>
   store (snd (onSubmit form_edited (Fails (JStr ''500'')) (Returns Fulfilled) (Returns Fulfilled) world_draft)) ''AddonReview:r1'' =
     Some stored_draft \<and>
   render form_edited (snd (onSubmit form_edited (Fails (JStr ''500'')) (Returns Fulfilled) (Returns Fulfilled) world_draft)) =
     Inr \<lparr>userRating_review = review_r1, textarea_value = JStr ''unsaved edit'',
          error_display = Some (JStr ''500'')\<rparr>"
  using submit_failure_keeps_draft [of form_edited review_r1 "JStr ''500''" "Returns Fulfilled"
      "Returns Fulfilled" world_draft
      "fst (onSubmit form_edited (Fails (JStr ''500'')) (Returns Fulfilled) (Returns Fulfilled) world_draft)"
      "snd (onSubmit form_edited (Fails (JStr ''500'')) (Returns Fulfilled) (Returns Fulfilled) world_draft)"]
  by (simp add: form_edited_def form_r1_def props_r1_def review_r1_def field_def world_draft_def)

text \<open>
  C4, as amended. When the store holds a state object for the form's key, the
  resolution of the load started in the constructor merges that object into the
  component state, so a stored \<open>reviewBody\<close> replaces the body of the supplied review in
  the text area. The rating shown is the rating of the supplied review, whatever the
  stored object holds: \<open>render\<close> reads the rating from the \<open>review\<close> prop only.
\<close>

theorem stored_state_overrides_body_only:
  assumes "review p = Some r" and "has_createLocalState p"
    and "truthy (field r ''id'')" and "truthy (field r ''addonSlug'')"
    and "key = ''AddonReview:'' @ template_string (field r ''id'')"
    and "store w key = Some s" and "s ''reviewBody'' = Some b"
    and "c = \<lparr>props = p, state = [''reviewBody'' \<mapsto> field r ''body''] ++ s, localState = key\<rparr>"
  shows "mount p w = Inr (c, emit (LocalStateLoad key) w) \<and>
         render c (emit (LocalStateLoad key) w) =
           Inr \<lparr>userRating_review = r, textarea_value = b,
                error_display = renderErrorIfPresent (errorHandler p) w\<rparr> \<and>
         field (userRating_review (projr (render c (emit (LocalStateLoad key) w)))) ''rating'' =
           field r ''rating''"
proof -
  from assms(5,6,8) have m: "mount p w = Inr (c, emit (LocalStateLoad key) w)"
    by (simp add: mount_run [OF assms(1,2)] checkForStoredState_then_def setState_def)
  from assms(7,8) have "field (state c) ''reviewBody'' = b"
    by (simp add: field_def map_add_def)
  with assms(1,3,4,8) have r: "render c (emit (LocalStateLoad key) w) =
      Inr \<lparr>userRating_review = r, textarea_value = b,
           error_display = renderErrorIfPresent (errorHandler p) w\<rparr>"
    by (simp add: render_def renderErrorIfPresent_def)
  from m r show ?thesis by simp
qed

theorem stored_state_overrides_body_only_witness:
  "mount props_r1 world_draft =
     Inr (form_r1\<lparr>state := [''reviewBody'' \<mapsto> JStr ''old''] ++ stored_draft\<rparr>,
          emit (LocalStateLoad ''AddonReview:r1'') world_draft) \<and>
   render (form_r1\<lparr>state := [''reviewBody'' \<mapsto> JStr ''old''] ++ stored_draft\<rparr>)
       (emit (LocalStateLoad ''AddonReview:r1'') world_draft) =
     Inr \<lparr>userRating_review = review_r1, textarea_value = JStr ''draft'',
          error_display = None\<rparr>"
  using stored_state_overrides_body_only [of props_r1 review_r1 "''AddonReview:r1''"
      world_draft stored_draft "JStr ''draft''"
      "form_r1\<lparr>state := [''reviewBody'' \<mapsto> JStr ''old''] ++ stored_draft\<rparr>"]
  by (simp add: concrete_defs field_def renderErrorIfPresent_def)

text \<open>
  C4 as stated fails: with the stored object \<open>{reviewBody: "draft", rating: 1}\<close> and a
  supplied review of rating 5, the form shows the stored body and the rating 5.
\<close>

theorem stored_rating_not_rendered:
  "\<not> isl mounted_draft \<and> \<not> isl view_draft \<and>
   store world_draft (localState (fst (projr mounted_draft))) = Some stored_draft \<and>
   field stored_draft ''rating'' = JNum 1 \<and>
   field (userRating_review (projr view_draft)) ''rating'' = JNum 5 \<and>
   textarea_value (projr view_draft) = JStr ''draft''"
  by (simp add: concrete_defs mount_def constructor_def localState_load_def Let_def
      checkForStoredState_then_def setState_def render_def field_def emit_def)

text \<open>
  C5, as amended. A body edit schedules a save of the new component state, which is
  the object \<open>{reviewBody: text}\<close> and nothing else: once 800 ms have passed, the store
  holds exactly that object under the key of the form's \<open>LocalState\<close>, and it is the last
  save made. The object has no \<open>id\<close> and no \<open>rating\<close> property: the rating lives in
  the \<open>review\<close> prop, not in the component state. The world the edit starts from may hold
  pending saves of earlier edits, each due within 800 ms.
\<close>

theorem body_edit_saves_reviewBody_only:
  assumes "has_debounce (props c)" and "timers_within 800 w" and "800 \<le> ms"
    and "onBodyInput c v w = Inr (c', w')"
  shows "store (elapse ms w') (localState c) = Some [''reviewBody'' \<mapsto> JStr v] \<and>
         last (saves (effects_since w (elapse ms w'))) =
           (localState c, [''reviewBody'' \<mapsto> JStr v]) \<and>
         dom [''reviewBody'' \<mapsto> JStr v] = {''reviewBody''}"
proof -
  let ?s = "[''reviewBody'' \<mapsto> JStr v]"
  let ?xs = "sort_key fst (due (clock w + ms) (debouncers w))"
  from assms(1,4) have w': "w' = w\<lparr>debouncers := debouncers w @
      [\<lparr>wait = 800, target = localState c, pending = Some (clock w + 800, ?s)\<rparr>]\<rparr>"
    by (simp add: onBodyInput_run)
  have el: "elapse ms w' = localState_save (localState c) ?s
      (run_saves ?xs (w\<lparr>clock := clock w + ms,
         debouncers := map (settle (clock w + ms)) (debouncers w) @
           [\<lparr>wait = 800, target = localState c, pending = None\<rparr>]\<rparr>))"
    unfolding w' by (rule elapse_after_edit [OF assms(2,3)])
  have st: "store (elapse ms w') (localState c) = Some ?s"
    unfolding el by (simp add: localState_save_def)
  have "trace (elapse ms w') = trace w @
      (map (\<lambda>(deadline, key, args). LocalStateSave key args) ?xs @
       [LocalStateSave (localState c) ?s])"
    unfolding el by (simp add: localState_save_def run_saves_trace)
  then have "effects_since w (elapse ms w') =
      map (\<lambda>(deadline, key, args). LocalStateSave key args) ?xs @
      [LocalStateSave (localState c) ?s]"
    by (rule effects_since_append)
  then have "last (saves (effects_since w (elapse ms w'))) = (localState c, ?s)"
    by (simp add: saves_snoc)
  with st show ?thesis by simp
qed

theorem body_edit_saves_reviewBody_only_witness:
  "store (elapse 801 (snd (projr (onBodyInput form_r1 ''great addon'' world0)))) ''AddonReview:r1'' =
     Some [''reviewBody'' \<mapsto> JStr ''great addon''] \<and>
   last (saves (effects_since world0
       (elapse 801 (snd (projr (onBodyInput form_r1 ''great addon'' world0)))))) =
     (''AddonReview:r1'', [''reviewBody'' \<mapsto> JStr ''great addon'']) \<and>
   dom [''reviewBody'' \<mapsto> JStr ''great addon''] = {''reviewBody''}"
proof -
  have run: "onBodyInput form_r1 ''great addon'' world0 =
      Inr (fst (projr (onBodyInput form_r1 ''great addon'' world0)),
           snd (projr (onBodyInput form_r1 ''great addon'' world0)))"
    by (simp add: onBodyInput_def form_r1_def props_r1_def Let_def debounce_def)
  have "has_debounce (props form_r1)" and "timers_within 800 world0" and "(800::nat) \<le> 801"
    by (simp_all add: form_r1_def props_r1_def timers_within_def world0_def)
  from body_edit_saves_reviewBody_only [OF this run] show ?thesis
    by (simp add: form_r1_def)
qed

text \<open>
  C5 as stated fails: the form for the review \<open>{id: "r1", body: "old", rating: 5}\<close>,
  one edit to "great addon" and 801 ms of quiet leave the store holding
  \<open>{reviewBody: "great addon"}\<close>, an object with no \<open>rating\<close>, \<open>id\<close> or \<open>body\<close>.
\<close>

theorem saved_snapshot_lacks_rating:
  "\<not> isl one_edit \<and>
   store (elapse 801 (snd (projr one_edit))) ''AddonReview:r1'' =
     Some [''reviewBody'' \<mapsto> JStr ''great addon''] \<and>
   field review_r1 ''rating'' = JNum 5 \<and>
   [''reviewBody'' \<mapsto> JStr ''great addon''] ''rating'' = None \<and>
   [''reviewBody'' \<mapsto> JStr ''great addon''] ''id'' = None \<and>
   [''reviewBody'' \<mapsto> JStr ''great addon''] ''body'' = None"
  by (simp add: concrete_defs step_defs field_def)

text \<open>
  C6, as amended. Selecting a rating leaves the component and its state as they are
  and makes one call, at once: \<open>setDenormalizedReview\<close> on the review overlaid with the
  current body (or \<open>undefined\<close> when the body is empty) and the new rating. No timer is
  started and no remote call is made.
\<close>

theorem select_rating_dispatches_only:
  assumes "has_setDenormalizedReview (props c)"
    and "u = (spread (review (props c)))
               (''body'' \<mapsto> js_or (field (state c) ''reviewBody'') JUndefined,
                ''rating'' \<mapsto> JNum rating)"
  shows "onSelectRating c rating w = Inr (c, emit (SetDenormalizedReview u) w) \<and>
         effects_since w (emit (SetDenormalizedReview u) w) = [SetDenormalizedReview u] \<and>
         debouncers (emit (SetDenormalizedReview u) w) = debouncers w \<and>
         store (emit (SetDenormalizedReview u) w) = store w \<and>
         field u ''rating'' = JNum rating \<and>
         field u ''body'' = js_or (field (state c) ''reviewBody'') JUndefined"
  using assms by (simp add: onSelectRating_def effects_since_def field_def)

theorem select_rating_dispatches_only_witness:
  "onSelectRating form_r1 3 world0 =
     Inr (form_r1, emit (SetDenormalizedReview
            (review_r1(''body'' \<mapsto> JStr ''old'', ''rating'' \<mapsto> JNum 3))) world0) \<and>
   effects_since world0 (emit (SetDenormalizedReview
            (review_r1(''body'' \<mapsto> JStr ''old'', ''rating'' \<mapsto> JNum 3))) world0) =
     [SetDenormalizedReview (review_r1(''body'' \<mapsto> JStr ''old'', ''rating'' \<mapsto> JNum 3))]"
  using select_rating_dispatches_only [of form_r1
      "review_r1(''body'' \<mapsto> JStr ''old'', ''rating'' \<mapsto> JNum 3)" 3 world0]
  by (simp add: form_r1_def props_r1_def spread_def field_def js_or_def)

text \<open>
  C6 as stated fails: after a rating is selected the component state is the one
  before, and holds no rating.
\<close>

theorem select_rating_state_unchanged:
  "\<not> isl (onSelectRating form_r1 3 world0) \<and>
   state (fst (projr (onSelectRating form_r1 3 world0))) = state form_r1 \<and>
   state (fst (projr (onSelectRating form_r1 3 world0))) ''rating'' = None"
  by (simp add: onSelectRating_def form_r1_def props_r1_def)

text \<open>
  C7. A submit event reaches \<open>onSubmit\<close> through the form that \<open>render\<close> puts on the
  page, and \<open>render\<close> validates the review first: when the review is missing, or its
  \<open>id\<close> or its \<open>addonSlug\<close> (the addon reference) is falsy, the event ends in the
  unexpected-review error and the world is the one before, with no call made and no
  state changed. When both fields are there the event is \<open>onSubmit\<close>. So every remote
  update call a submit event makes carries a truthy \<open>reviewId\<close>, and every
  \<open>refreshAddon\<close> call a truthy \<open>addonSlug\<close>.
\<close>

theorem submit_event_validates_identity:
  assumes "submit_event c r cb ra w = (res, w')"
  shows "((review (props c) = None \<or>
           \<not> truthy (field (spread (review (props c))) ''id'') \<or>
           \<not> truthy (field (spread (review (props c))) ''addonSlug'')) \<longrightarrow>
            res = Inl UnexpectedReview \<and> w' = w) \<and>
         ((\<exists>rv. review (props c) = Some rv \<and> truthy (field rv ''id'') \<and>
                truthy (field rv ''addonSlug'')) \<longrightarrow>
            (res, w') = onSubmit c r cb ra w) \<and>
         (\<forall>params \<in> set (requests (effects_since w w')). truthy (field params ''reviewId'')) \<and>
         (\<forall>args \<in> set (refreshes (effects_since w w')). truthy (field args ''addonSlug''))"
proof (cases "review (props c) = None \<or>
           \<not> truthy (field (spread (review (props c))) ''id'') \<or>
           \<not> truthy (field (spread (review (props c))) ''addonSlug'')")
  case True
  from submit_event_invalid [OF True, of r cb ra w] assms
  have "res = Inl UnexpectedReview" and "w' = w" by simp_all
  with True show ?thesis by (auto simp: effects_since_def spread_def)
next
  case False
  then obtain rv where rv: "review (props c) = Some rv" and i: "truthy (field rv ''id'')"
    and s: "truthy (field rv ''addonSlug'')"
    by (auto simp: spread_def)
  from submit_event_valid [OF rv i s, of r cb ra w] assms
  have run: "onSubmit c r cb ra w = (res, w')" by simp
  then have w': "w' = snd (onSubmit c r cb ra w)" by simp
  from onSubmit_calls [OF rv, of w r cb ra] i s
  have "(\<forall>params \<in> set (requests (effects_since w w')). truthy (field params ''reviewId'')) \<and>
        (\<forall>args \<in> set (refreshes (effects_since w w')). truthy (field args ''addonSlug''))"
    unfolding w' by simp
  with False rv run show ?thesis by auto
qed

theorem submit_event_validates_identity_witness:
  "submit_event form_noid Succeeds (Returns Fulfilled) (Returns Fulfilled) world0 =
     (Inl UnexpectedReview, world0) \<and>
   submit_event form_r1 Succeeds (Returns Fulfilled) (Returns Fulfilled) world0 =
     onSubmit form_r1 Succeeds (Returns Fulfilled) (Returns Fulfilled) world0 \<and>
   map (\<lambda>params. field params ''reviewId'')
     (requests (effects_since world0
        (snd (submit_event form_r1 Succeeds (Returns Fulfilled) (Returns Fulfilled) world0)))) =
     [JStr ''r1'']"
proof -
  have a: "submit_event form_noid Succeeds (Returns Fulfilled) (Returns Fulfilled) world0 =
      (Inl UnexpectedReview, world0)"
    using submit_event_validates_identity [of form_noid Succeeds "Returns Fulfilled"
        "Returns Fulfilled" world0
        "fst (submit_event form_noid Succeeds (Returns Fulfilled) (Returns Fulfilled) world0)"
        "snd (submit_event form_noid Succeeds (Returns Fulfilled) (Returns Fulfilled) world0)"]
    by (simp add: form_noid_def props_r1_def review_noid_def field_def spread_def prod_eq_iff)
  have b: "submit_event form_r1 Succeeds (Returns Fulfilled) (Returns Fulfilled) world0 =
      onSubmit form_r1 Succeeds (Returns Fulfilled) (Returns Fulfilled) world0"
    using submit_event_validates_identity [of form_r1 Succeeds "Returns Fulfilled"
        "Returns Fulfilled" world0
        "fst (submit_event form_r1 Succeeds (Returns Fulfilled) (Returns Fulfilled) world0)"
        "snd (submit_event form_r1 Succeeds (Returns Fulfilled) (Returns Fulfilled) world0)"]
    by (simp add: form_r1_def props_r1_def review_r1_def field_def)
  have "map (\<lambda>params. field params ''reviewId'')
     (requests (effects_since world0
        (snd (onSubmit form_r1 Succeeds (Returns Fulfilled) (Returns Fulfilled) world0)))) =
     [JStr ''r1'']"
    by (simp add: onSubmit_succeeds effects_since_def form_r1_def props_r1_def review_r1_def
        field_def)
  with a b show ?thesis by simp
qed

text \<open>
  C8. The error boundary renders the fallback element, made of the component that
  \<open>getErrorComponent\<close> selects for the status code and given the recorded error and
  status, exactly when \<open>errorPage.hasError\<close> is truthy; it renders its children
  unchanged exactly when it is not.
\<close>

theorem ErrorPage_render_fallback_iff_hasError:
  "(ErrorPage_render p =
      Element (getErrorComponent p (field (errorPage p) ''statusCode''))
        [''error'' \<mapsto> field (errorPage p) ''error'',
         ''status'' \<mapsto> field (errorPage p) ''statusCode'']) =
     truthy (field (errorPage p) ''hasError'') \<and>
   (ErrorPage_render p = Passthrough (children p)) =
     (\<not> truthy (field (errorPage p) ''hasError''))"
  by (simp add: ErrorPage_render_def)

text \<open>
  C9. When the form receives new props that hold a review, the \<open>reviewBody\<close> of its
  state becomes the body of that review, whatever the state held before; the rest of
  the state is untouched.
\<close>

theorem receive_props_overwrites_body:
  assumes "review nextProps = Some r"
  shows "state (componentWillReceiveProps c nextProps) =
           (state c)(''reviewBody'' \<mapsto> field r ''body'') \<and>
         field (state (componentWillReceiveProps c nextProps)) ''reviewBody'' = field r ''body''"
  using assms by (simp add: componentWillReceiveProps_def setState_def field_def)

theorem receive_props_overwrites_body_witness:
  "field (state form_edited) ''reviewBody'' = JStr ''unsaved edit'' \<and>
   field (state (componentWillReceiveProps form_edited props_r1)) ''reviewBody'' = JStr ''old''"
  using receive_props_overwrites_body [of props_r1 review_r1 form_edited]
  by (simp add: props_r1_def review_r1_def form_edited_def form_r1_def field_def)

text \<open>
  C10. When the body in the component state is the empty string or \<open>null\<close> at submit
  time, the one review published to shared state and the one set of parameters handed
  to the remote call both carry the property \<open>body\<close> with the value \<open>undefined\<close>,
  whether the remote call then succeeds or fails.
\<close>

theorem submit_blank_body_is_undefined:
  assumes "has_refreshAddon (props c)" and "has_updateReviewText (props c)"
    and "has_setDenormalizedReview (props c)" and "review (props c) = Some rv"
    and "field (state c) ''reviewBody'' = JStr [] \<or> field (state c) ''reviewBody'' = JNull"
  shows "map (\<lambda>u. u ''body'') (published (effects_since w (snd (onSubmit c r cb ra w)))) =
           [Some JUndefined] \<and>
         map (\<lambda>params. params ''body'') (requests (effects_since w (snd (onSubmit c r cb ra w)))) =
           [Some JUndefined]"
proof -
  from assms(5) have b: "js_or (field (state c) ''reviewBody'') JUndefined = JUndefined"
    by (auto simp: js_or_def)
  show ?thesis
    by (cases r; cases cb)
      (simp_all add: effects_since_def onSubmit_succeeds [OF assms(1-4)]
        onSubmit_callback_throws [OF assms(1-4)] onSubmit_fails [OF assms(1-4)] b)
qed

theorem submit_blank_body_is_undefined_witness:
  "field (state form_blank) ''reviewBody'' = JStr [] \<and>
   map (\<lambda>u. u ''body'') (published (effects_since world0 (snd (onSubmit form_blank Succeeds (Returns Fulfilled) (Returns Fulfilled) world0)))) =
     [Some JUndefined] \<and>
   map (\<lambda>params. params ''body'')
     (requests (effects_since world0 (snd (onSubmit form_blank Succeeds (Returns Fulfilled) (Returns Fulfilled) world0)))) =
     [Some JUndefined]"
  using submit_blank_body_is_undefined [of form_blank review_r1 world0 Succeeds
      "Returns Fulfilled" "Returns Fulfilled"]
  by (simp add: form_blank_def form_r1_def props_r1_def field_def)

end
